theory Spec2Isabelle
  imports Complex_Main
begin

section \<open>Numbers and the Math library\<close>

text \<open>
  The two screens compute with JavaScript numbers, which are IEEE 754 doubles. The model
  computes with real numbers and says where it rounds. The add of 360 in the heading
  normalisation rounds its sum to the nearest double (\<open>double_round\<close>), since that sum
  can round to 360 itself. All other arithmetic is exact, and the sign of zero is not
  modelled. \<^verbatim>\<open>Math.sqrt\<close> of a negative argument returns NaN; NaN is the value
  \<open>None\<close> of the model and spreads through the arithmetic that follows, as it does
  in JavaScript.
\<close>

definition Math_atan2 :: "real \<Rightarrow> real \<Rightarrow> real" where
  \<comment> \<open>\<^verbatim>\<open>Math.atan2(y, x)\<close>: the angle of the point \<open>(x, y)\<close>, in \<open>(-pi, pi]\<close>,
      and 0 at the origin.\<close>
  "Math_atan2 y x =
     (if 0 < x then arctan (y / x)
      else if x < 0 then (if 0 \<le> y then arctan (y / x) + pi else arctan (y / x) - pi)
      else if 0 < y then pi / 2
      else if y < 0 then - (pi / 2)
      else 0)"

definition Math_sqrt :: "real \<Rightarrow> real option" where
  \<comment> \<open>\<^verbatim>\<open>Math.sqrt(v)\<close>: NaN (\<open>None\<close>) below zero.\<close>
  "Math_sqrt v = (if v < 0 then None else Some (sqrt v))"

definition js_rem :: "real \<Rightarrow> real \<Rightarrow> real" where
  \<comment> \<open>\<^verbatim>\<open>n % d\<close> for a divisor other than 0 (the program only divides by 360):
      the quotient is truncated toward zero, so the result has the sign of \<open>n\<close>.\<close>
  "js_rem n d = n - d * of_int (if 0 \<le> n / d then \<lfloor>n / d\<rfloor> else \<lceil>n / d\<rceil>)"

text \<open>
  The nearest double of a real number: round to nearest, ties to even, with a significand
  of 53 bits. The exponent range is not modelled (no overflow, no subnormal numbers).
\<close>

definition round_even :: "real \<Rightarrow> int" where
  "round_even r =
     (let f = \<lfloor>r\<rfloor>
      in if r - of_int f < 1 / 2 then f
         else if 1 / 2 < r - of_int f then f + 1
         else if even f then f else f + 1)"

definition double_round :: "real \<Rightarrow> real" where
  "double_round v =
     (if v = 0 then 0
      else (let u = 2 powr (of_int \<lfloor>log 2 \<bar>v\<bar>\<rfloor> - 52)
            in u * of_int (round_even (v / u))))"

section \<open>Heading normalisation\<close>

text \<open>
  Both screens bring an angle in degrees into the compass range in the same way
  (transponderCompass.tsx, lines 26-28 and 71-73; transponderWaypoint.tsx, lines 143-145):
  \<^verbatim>\<open>if (angle < 0) { angle += 360; }\<close>
\<close>

definition normalize360 :: "real \<Rightarrow> real" where
  "normalize360 angle = (if angle < 0 then double_round (angle + 360) else angle)"

section \<open>The compass screen (transponderCompass.tsx)\<close>

text \<open>A sensor reading \<^verbatim>\<open>{ x, y, z }\<close> of the magnetometer or the accelerometer.\<close>

record sensor_data =
  x_of :: real
  y_of :: real
  z_of :: real

definition heading :: "sensor_data \<Rightarrow> real" where
  \<comment> \<open>The magnetometer listener, lines 23-30: the value passed to \<^verbatim>\<open>setHeading\<close>.\<close>
  "heading data = normalize360 (Math_atan2 (- x_of data) (y_of data) * (180 / pi))"

definition pitch :: "sensor_data \<Rightarrow> real" where
  "pitch accelerometerData =
     Math_atan2 (y_of accelerometerData) (z_of accelerometerData) * (180 / pi)"

definition roll :: "sensor_data \<Rightarrow> real" where
  "roll accelerometerData =
     Math_atan2 (x_of accelerometerData) (z_of accelerometerData) * (180 / pi)"

definition cosRoll :: "sensor_data \<Rightarrow> real" where
  "cosRoll accelerometerData = cos (roll accelerometerData * pi / 180)"

definition sinRoll :: "sensor_data \<Rightarrow> real" where
  "sinRoll accelerometerData = sin (roll accelerometerData * pi / 180)"

definition cosPitch :: "sensor_data \<Rightarrow> real" where
  "cosPitch accelerometerData = cos (pitch accelerometerData * pi / 180)"

definition sinPitch :: "sensor_data \<Rightarrow> real" where
  "sinPitch accelerometerData = sin (pitch accelerometerData * pi / 180)"

definition magX :: "sensor_data \<Rightarrow> sensor_data \<Rightarrow> real" where
  "magX accelerometerData magnetometerData =
     x_of magnetometerData * cosPitch accelerometerData
       + z_of magnetometerData * sinPitch accelerometerData"

definition magY :: "sensor_data \<Rightarrow> sensor_data \<Rightarrow> real" where
  "magY accelerometerData magnetometerData =
     x_of magnetometerData * sinRoll accelerometerData * sinPitch accelerometerData
       + y_of magnetometerData * cosRoll accelerometerData
       - z_of magnetometerData * sinRoll accelerometerData * cosPitch accelerometerData"

definition compensatedHeading :: "sensor_data \<Rightarrow> sensor_data \<Rightarrow> real" where
  \<comment> \<open>Lines 70-73.\<close>
  "compensatedHeading accelerometerData magnetometerData =
     normalize360
       (Math_atan2 (- magX accelerometerData magnetometerData)
          (magY accelerometerData magnetometerData) * (180 / pi))"

section \<open>The waypoint screen (transponderWaypoint.tsx)\<close>

subsection \<open>Bearing and distance\<close>

record coords =
  latitude :: real
  longitude :: real

text \<open>
  The object \<^verbatim>\<open>{ distance, bearing }\<close> that \<^verbatim>\<open>calculateNavigationData\<close>
  returns; its fields carry the names of the local constants they are filled from.
\<close>

record navigation_data =
  calculatedDistance :: "real option"
  calculatedBearing :: real

definition targetLocation :: coords where
  "targetLocation = \<lparr>latitude = 37.7749, longitude = -122.4194\<rparr>"

definition calculateNavigationData :: "coords \<Rightarrow> coords \<Rightarrow> navigation_data" where
  "calculateNavigationData fromLocation toLocation =
     (let R = 6371000;
          phi1 = latitude fromLocation * pi / 180;
          phi2 = latitude toLocation * pi / 180;
          dphi = (latitude toLocation - latitude fromLocation) * pi / 180;
          dlam = (longitude toLocation - longitude fromLocation) * pi / 180;
          a = sin (dphi / 2) * sin (dphi / 2)
                + cos phi1 * cos phi2 * sin (dlam / 2) * sin (dlam / 2);
          c = (case Math_sqrt a of
                 None \<Rightarrow> None
               | Some p \<Rightarrow>
                   (case Math_sqrt (1 - a) of
                      None \<Rightarrow> None
                    | Some q \<Rightarrow> Some (2 * Math_atan2 p q)));
          y = sin dlam * cos phi2;
          x = cos phi1 * sin phi2 - sin phi1 * cos phi2 * cos dlam;
          theta = Math_atan2 y x
      in \<lparr>calculatedDistance = map_option (\<lambda>c. R * c) c,
          calculatedBearing = js_rem (theta * 180 / pi + 360) 360\<rparr>)"

text \<open>
  The range of a geographic position: latitude in \<open>[-90, 90]\<close>, longitude in
  \<open>[-180, 180]\<close>. The program has no such check; the predicate states which inputs
  a property is about.
\<close>

definition validGeoPoint :: "coords \<Rightarrow> bool" where
  "validGeoPoint p \<longleftrightarrow>
     - 90 \<le> latitude p \<and> latitude p \<le> 90 \<and> - 180 \<le> longitude p \<and> longitude p \<le> 180"

text \<open>
  The local constants \<^verbatim>\<open>a\<close>, \<^verbatim>\<open>y\<close> and \<^verbatim>\<open>x\<close> of
  \<^verbatim>\<open>calculateNavigationData\<close> as functions of its arguments, for the proofs.
\<close>

definition haversine_a :: "coords \<Rightarrow> coords \<Rightarrow> real" where
  "haversine_a fromLocation toLocation =
     sin ((latitude toLocation - latitude fromLocation) * pi / 180 / 2)
         * sin ((latitude toLocation - latitude fromLocation) * pi / 180 / 2)
       + cos (latitude fromLocation * pi / 180) * cos (latitude toLocation * pi / 180)
         * sin ((longitude toLocation - longitude fromLocation) * pi / 180 / 2)
         * sin ((longitude toLocation - longitude fromLocation) * pi / 180 / 2)"

definition bearing_y :: "coords \<Rightarrow> coords \<Rightarrow> real" where
  "bearing_y fromLocation toLocation =
     sin ((longitude toLocation - longitude fromLocation) * pi / 180)
       * cos (latitude toLocation * pi / 180)"

definition bearing_x :: "coords \<Rightarrow> coords \<Rightarrow> real" where
  "bearing_x fromLocation toLocation =
     cos (latitude fromLocation * pi / 180) * sin (latitude toLocation * pi / 180)
       - sin (latitude fromLocation * pi / 180) * cos (latitude toLocation * pi / 180)
         * cos ((longitude toLocation - longitude fromLocation) * pi / 180)"

text \<open>
  Lines 40-41 as a function of the term \<^verbatim>\<open>a\<close>: the distance, NaN when one of the
  two square roots is.
\<close>

definition haversineDistance :: "real \<Rightarrow> real option" where
  "haversineDistance a =
     (case Math_sqrt a of
        None \<Rightarrow> None
      | Some p \<Rightarrow>
          (case Math_sqrt (1 - a) of
             None \<Rightarrow> None
           | Some q \<Rightarrow> Some (6371000 * (2 * Math_atan2 p q))))"


subsection \<open>The state of the screen and its callbacks\<close>

text \<open>
  The state variables of \<^verbatim>\<open>GPSDirectionalArrow\<close> that the navigation uses, with
  their initial values (lines 16-21). A callback takes the state and returns the state
  after its \<^verbatim>\<open>set...\<close> calls.
\<close>

record gps_state =
  currentLocation :: "coords option"
  compassHeading :: real
  bearing :: real
  distance :: "real option"
  loading :: bool

definition initial :: gps_state where
  "initial = \<lparr>currentLocation = None, compassHeading = 0, bearing = 0,
     distance = Some 0, loading = True\<rparr>"

text \<open>The heading object of \<^verbatim>\<open>Location.watchHeadingAsync\<close>.\<close>

record heading_event =
  trueHeading :: real
  magHeading :: real

definition onLocation :: "coords \<Rightarrow> gps_state \<Rightarrow> gps_state" where
  \<comment> \<open>The callback of \<^verbatim>\<open>watchPositionAsync\<close>, lines 101-112.\<close>
  "onLocation location_coords s =
     (let r = calculateNavigationData location_coords targetLocation
      in s\<lparr>currentLocation := Some location_coords,
            distance := calculatedDistance r,
            bearing := calculatedBearing r,
            loading := False\<rparr>)"

definition onHeading :: "heading_event \<Rightarrow> gps_state \<Rightarrow> gps_state" where
  \<comment> \<open>The callback of \<^verbatim>\<open>watchHeadingAsync\<close>, lines 117-121.\<close>
  "onHeading h s =
     (let headingValue = (if trueHeading h \<noteq> - 1 then trueHeading h else magHeading h)
      in s\<lparr>compassHeading := headingValue\<rparr>)"

definition magneticHeading :: "sensor_data \<Rightarrow> real" where
  \<comment> \<open>The fallback magnetometer listener, lines 142-145.\<close>
  "magneticHeading data = normalize360 (Math_atan2 (- x_of data) (y_of data) * (180 / pi))"

definition onMagnetometer :: "sensor_data \<Rightarrow> gps_state \<Rightarrow> gps_state" where
  \<comment> \<open>Lines 140-148.\<close>
  "onMagnetometer data s = s\<lparr>compassHeading := magneticHeading data\<rparr>"

definition arrowDirection :: "real \<Rightarrow> real \<Rightarrow> real" where
  \<comment> \<open>Lines 177-184, from the state variables \<^verbatim>\<open>bearing\<close> and
      \<^verbatim>\<open>compassHeading\<close>.\<close>
  "arrowDirection bearing_v compassHeading_v =
     (let d = bearing_v - compassHeading_v
      in if d > 180 then d - 360 else if d < - 180 then d + 360 else d)"

definition arrowTarget :: "gps_state \<Rightarrow> real option" where
  \<comment> \<open>The rotation effect, lines 174-192: the \<^verbatim>\<open>toValue\<close> of the animation it
      starts, \<open>None\<close> when it starts none.\<close>
  "arrowTarget s =
     (if currentLocation s \<noteq> None \<and> \<not> loading s
      then Some (arrowDirection (bearing s) (compassHeading s))
      else None)"

section \<open>Rounding to the nearest double\<close>




lemma round_even_just_below:
  assumes "of_int m - 1 / 2 < r" and "r \<le> of_int m"
  shows "round_even r = m"
proof (cases "r = of_int m")
  case True
  then show ?thesis by (simp add: round_even_def Let_def)
next
  case False
  with assms have lt: "r < of_int m" by simp
  have "of_int (m - 1) \<le> r" using assms by simp
  moreover have "r < of_int (m - 1) + 1" using lt by simp
  ultimately have f: "\<lfloor>r\<rfloor> = m - 1" by (rule floor_unique)
  then have "of_int \<lfloor>r\<rfloor> = (of_int m - 1 :: real)" by simp
  with assms have "1 / 2 < r - of_int \<lfloor>r\<rfloor>" by linarith
  with f show ?thesis by (simp add: round_even_def Let_def)
qed

lemma round_even_tie_even:
  assumes "r = of_int m - 1 / 2" and "even m"
  shows "round_even r = m"
proof -
  have "of_int (m - 1) \<le> r" "r < of_int (m - 1) + 1" using assms by simp_all
  then have f: "\<lfloor>r\<rfloor> = m - 1" by (rule floor_unique)
  then have "r - of_int \<lfloor>r\<rfloor> = 1 / 2" using assms by simp
  with f assms show ?thesis by (simp add: round_even_def Let_def)
qed

lemma round_even_of_int: "round_even (of_int n) = n"
  by (simp add: round_even_def Let_def)

lemma double_round_binade:
  fixes e :: int
  assumes "2 powr (of_int e) \<le> \<bar>v\<bar>" and "\<bar>v\<bar> < 2 powr (of_int e + 1)"
  shows "double_round v
    = 2 powr (of_int e - 52) * of_int (round_even (v / 2 powr (of_int e - 52)))"
proof -
  have "(0::real) < 2 powr (of_int e)" by simp
  with assms(1) have pos: "0 < \<bar>v\<bar>" by linarith
  then have nz: "v \<noteq> 0" by simp
  from pos assms have "\<lfloor>log 2 \<bar>v\<bar>\<rfloor> = e"
    by (simp add: floor_log_eq_powr_iff)
  with nz show ?thesis by (simp add: double_round_def Let_def)
qed

lemma double_round_256_512:
  assumes "256 \<le> v" and "v < 512"
  shows "double_round v = of_int (round_even (v * 2 ^ 44)) / 2 ^ 44"
proof -
  have a: "\<bar>v\<bar> = v" using assms by simp
  have "2 powr (of_int 8) \<le> \<bar>v\<bar>" "\<bar>v\<bar> < 2 powr (of_int 8 + 1)"
    using assms by (simp_all add: a)
  from double_round_binade [OF this] show ?thesis
    by (simp add: powr_neg_numeral)
qed


lemma double_round_270: "double_round 270 = 270"
proof -
  have "(270::real) * 2 ^ 44 = of_int (270 * 2 ^ 44)" by simp
  then have "round_even (270 * 2 ^ 44) = 270 * 2 ^ 44"
    using round_even_of_int [of "270 * 2 ^ 44"] by simp
  then show ?thesis by (simp add: double_round_256_512)
qed

section \<open>Heading normalisation: range and fixed points\<close>



lemma normalize360_window:
  assumes "- (1 / 2 ^ 45) \<le> angle" and "angle < 0"
  shows "normalize360 angle = 360"
proof -
  let ?v = "angle + 360"
  have v: "256 \<le> ?v" "?v < 512" using assms by simp_all
  have lo: "of_int (360 * 2 ^ 44) - 1 / 2 \<le> ?v * 2 ^ 44"
    using assms(1) by (simp add: field_simps)
  have hi: "?v * 2 ^ 44 \<le> of_int (360 * 2 ^ 44)"
    using assms(2) by (simp add: field_simps)
  have "round_even (?v * 2 ^ 44) = 360 * 2 ^ 44"
  proof (cases "?v * 2 ^ 44 = of_int (360 * 2 ^ 44) - 1 / 2")
    case True
    then show ?thesis by (rule round_even_tie_even) simp
  next
    case False
    with lo have "of_int (360 * 2 ^ 44) - 1 / 2 < ?v * 2 ^ 44" by simp
    then show ?thesis using hi by (rule round_even_just_below)
  qed
  then have "double_round ?v = 360"
    by (simp add: double_round_256_512 [OF v])
  with assms(2) show ?thesis by (simp add: normalize360_def)
qed





section \<open>The magnetometer listeners\<close>

lemma arctan_le_self:
  assumes "0 \<le> u"
  shows "arctan u \<le> u"
proof -
  have "(\<lambda>x. x - arctan x) 0 \<le> (\<lambda>x. x - arctan x) u"
  proof (rule DERIV_nonneg_imp_nondecreasing [OF assms])
    fix x :: real
    have "DERIV (\<lambda>x. x - arctan x) x :> 1 - inverse (1 + x\<^sup>2)"
      by (auto intro!: derivative_eq_intros)
    moreover have "0 \<le> 1 - inverse (1 + x\<^sup>2)"
      by (simp add: inverse_le_1_iff)
    ultimately show "\<exists>y. DERIV (\<lambda>x. x - arctan x) x :> y \<and> 0 \<le> y" by blast
  qed
  then show ?thesis by simp
qed

lemma tiny_sample_angle:
  "- (1 / 2 ^ 45) \<le> Math_atan2 (- (1 / 10 ^ 17)) 1 * (180 / pi)
    \<and> Math_atan2 (- (1 / 10 ^ 17)) 1 * (180 / pi) < 0"
proof -
  let ?u = "1 / 10 ^ 17 :: real"
  have a: "Math_atan2 (- ?u) 1 = - arctan ?u"
    by (simp add: Math_atan2_def arctan_minus)
  have pos: "0 < arctan ?u" by simp
  have le: "arctan ?u \<le> ?u" by (rule arctan_le_self) simp
  have k: "0 < 180 / pi" "180 / pi \<le> 90" using pi_ge_two by (simp_all add: field_simps)
  have "arctan ?u * (180 / pi) \<le> ?u * (180 / pi)"
    by (rule mult_right_mono [OF le less_imp_le [OF k(1)]])
  also have "\<dots> \<le> ?u * 90" by (rule mult_left_mono [OF k(2)]) simp
  also have "\<dots> \<le> 1 / 2 ^ 45" by simp
  finally have "arctan ?u * (180 / pi) \<le> 1 / 2 ^ 45" .
  moreover have "0 < arctan ?u * (180 / pi)" using pos k(1) by simp
  ultimately show ?thesis unfolding a by simp
qed

text \<open>
  C10 fails on the code. For the magnetometer sample \<open>{x: 1e-17, y: 1, z: 0}\<close> the
  angle is about \<open>-5.7e-16\<close>; it is negative, and its sum with 360 rounds to 360. Both
  listeners then store the heading 360, which is outside \<open>[0, 360)\<close>.
\<close>

theorem listener_heading_360:
  "heading \<lparr>x_of = 1 / 10 ^ 17, y_of = 1, z_of = 0\<rparr> = 360
    \<and> magneticHeading \<lparr>x_of = 1 / 10 ^ 17, y_of = 1, z_of = 0\<rparr> = 360"
proof -
  from tiny_sample_angle
  have "normalize360 (Math_atan2 (- (1 / 10 ^ 17)) 1 * (180 / pi)) = 360"
    by (intro normalize360_window) simp_all
  then show ?thesis by (simp add: heading_def magneticHeading_def)
qed

section \<open>Tilt compensation on a level device\<close>

lemma level_magX:
  "pitch acc = 0 \<Longrightarrow> magX acc mag = x_of mag"
  by (simp add: magX_def cosPitch_def sinPitch_def)

lemma level_magY:
  "pitch acc = 0 \<Longrightarrow> roll acc = 0 \<Longrightarrow> magY acc mag = y_of mag"
  by (simp add: magY_def cosPitch_def sinPitch_def cosRoll_def sinRoll_def)

text \<open>
  C5. When the pitch and the roll computed from the accelerometer are both 0, the
  tilt-compensated heading is the uncompensated heading of the same magnetometer
  reading, for every reading whose \<open>(x, y)\<close> is not \<open>(0, 0)\<close>.
\<close>

theorem level_compensatedHeading:
  assumes "pitch accelerometerData = 0" and "roll accelerometerData = 0"
    and "(x_of magnetometerData, y_of magnetometerData) \<noteq> (0, 0)"
  shows "compensatedHeading accelerometerData magnetometerData = heading magnetometerData"
  using assms by (simp add: compensatedHeading_def heading_def level_magX level_magY)

theorem level_compensatedHeading_witness:
  "pitch \<lparr>x_of = 0, y_of = 0, z_of = 1\<rparr> = 0 \<and> roll \<lparr>x_of = 0, y_of = 0, z_of = 1\<rparr> = 0
    \<and> (x_of \<lparr>x_of = 1, y_of = 0, z_of = 0\<rparr>, y_of \<lparr>x_of = 1, y_of = 0, z_of = 0\<rparr>) \<noteq> (0, 0)
    \<and> compensatedHeading \<lparr>x_of = 0, y_of = 0, z_of = 1\<rparr> \<lparr>x_of = 1, y_of = 0, z_of = 0\<rparr>
        = heading \<lparr>x_of = 1, y_of = 0, z_of = 0\<rparr>
    \<and> heading \<lparr>x_of = 1, y_of = 0, z_of = 0\<rparr> = 270"
proof -
  have p: "pitch \<lparr>x_of = 0, y_of = 0, z_of = 1\<rparr> = 0"
    by (simp add: pitch_def Math_atan2_def)
  have r: "roll \<lparr>x_of = 0, y_of = 0, z_of = 1\<rparr> = 0"
    by (simp add: roll_def Math_atan2_def)
  have m: "(x_of \<lparr>x_of = 1, y_of = 0, z_of = 0\<rparr>, y_of \<lparr>x_of = 1, y_of = 0, z_of = 0\<rparr>) \<noteq> (0, 0)"
    by simp
  have h: "heading \<lparr>x_of = 1, y_of = 0, z_of = 0\<rparr> = 270"
    by (simp add: heading_def Math_atan2_def normalize360_def double_round_270)
  from level_compensatedHeading [OF p r m] p r m h show ?thesis by simp
qed

section \<open>The device heading event\<close>

text \<open>
  C9. On a heading event the true heading is preferred: when it is not -1 it becomes the
  compass heading, otherwise the magnetic heading does. An event with true heading -1
  and magnetic heading 87 gives the compass heading 87.
\<close>

theorem onHeading_prefers_true:
  "(trueHeading h \<noteq> - 1 \<longrightarrow> compassHeading (onHeading h s) = trueHeading h)
    \<and> (trueHeading h = - 1 \<longrightarrow> compassHeading (onHeading h s) = magHeading h)
    \<and> compassHeading (onHeading \<lparr>trueHeading = - 1, magHeading = 87\<rparr> s) = 87"
  by (simp add: onHeading_def)

theorem onHeading_prefers_true_witness:
  "trueHeading \<lparr>trueHeading = 123, magHeading = 87\<rparr> \<noteq> - 1
    \<and> compassHeading (onHeading \<lparr>trueHeading = 123, magHeading = 87\<rparr> initial) = 123
    \<and> trueHeading \<lparr>trueHeading = - 1, magHeading = 87\<rparr> = - 1
    \<and> compassHeading (onHeading \<lparr>trueHeading = - 1, magHeading = 87\<rparr> initial) = 87"
  using onHeading_prefers_true [of "\<lparr>trueHeading = 123, magHeading = 87\<rparr>" initial]
    onHeading_prefers_true [of "\<lparr>trueHeading = - 1, magHeading = 87\<rparr>" initial]
  by simp

text \<open>
  C3 (as amended). The callback tests the true heading only. On an event whose two
  fields are both -1 the magnetic field is adopted as it is: the compass heading
  becomes -1, whatever it was before, and nothing else in the state changes.
\<close>

theorem onHeading_both_unavailable:
  assumes "trueHeading h = - 1" and "magHeading h = - 1"
  shows "onHeading h s = s\<lparr>compassHeading := - 1\<rparr>"
  using assms by (simp add: onHeading_def)

theorem onHeading_both_unavailable_witness:
  "trueHeading \<lparr>trueHeading = - 1, magHeading = - 1\<rparr> = - 1
    \<and> magHeading \<lparr>trueHeading = - 1, magHeading = - 1\<rparr> = - 1
    \<and> onHeading \<lparr>trueHeading = - 1, magHeading = - 1\<rparr> initial
        = initial\<lparr>compassHeading := - 1\<rparr>"
  using onHeading_both_unavailable [of "\<lparr>trueHeading = - 1, magHeading = - 1\<rparr>" initial]
  by simp

text \<open>
  C3 (as stated) fails: after a compass heading of 42, and also on the first run with
  its initial 0, an event with both fields -1 leaves the compass heading at -1.
\<close>

theorem onHeading_sentinel_counterexample:
  "compassHeading
      (onHeading \<lparr>trueHeading = - 1, magHeading = - 1\<rparr>
         (onHeading \<lparr>trueHeading = 42, magHeading = 40\<rparr> initial)) = - 1
    \<and> compassHeading (onHeading \<lparr>trueHeading = 42, magHeading = 40\<rparr> initial) = 42
    \<and> compassHeading (onHeading \<lparr>trueHeading = - 1, magHeading = - 1\<rparr> initial) = - 1
    \<and> compassHeading initial = 0"
  by (simp add: onHeading_def initial_def)

section \<open>The rotation of the arrow\<close>

lemma arrowDirection_cases:
  assumes "0 \<le> a" and "a < 360" and "0 \<le> b" and "b < 360"
  shows "(180 < a - b \<and> arrowDirection a b = a - b - 360)
    \<or> (a - b < - 180 \<and> arrowDirection a b = a - b + 360)
    \<or> (- 180 \<le> a - b \<and> a - b \<le> 180 \<and> arrowDirection a b = a - b)"
  by (simp add: arrowDirection_def Let_def)

lemma abs_shift_360:
  fixes d :: real and m :: int
  assumes "- 180 \<le> d" and "d \<le> 180"
  shows "\<bar>d\<bar> \<le> \<bar>d + 360 * of_int m\<bar>"
proof -
  consider "m = 0" | "1 \<le> m" | "m \<le> - 1" by linarith
  then show ?thesis
  proof cases
    case 1
    then show ?thesis by simp
  next
    case 2
    then have "(1::real) \<le> of_int m" by linarith
    with assms show ?thesis by linarith
  next
    case 3
    then have "of_int m \<le> (- 1::real)" by linarith
    with assms show ?thesis by linarith
  qed
qed

text \<open>
  C2 (as amended). For a bearing \<open>a\<close> and a heading \<open>b\<close> in \<open>[0, 360)\<close> the rotation
  of the arrow is \<open>a - b\<close> wrapped into the closed interval \<open>[-180, 180]\<close>: it differs
  from \<open>a - b\<close> by -360, 0 or 360, no rotation that carries \<open>b\<close> onto \<open>a\<close> has a smaller
  magnitude, and it is -180 exactly when \<open>a - b\<close> is -180. The rotation for bearing 350
  and heading 10 is -20.
\<close>

theorem arrowDirection_shortest:
  assumes "0 \<le> a" and "a < 360" and "0 \<le> b" and "b < 360"
  shows "- 180 \<le> arrowDirection a b \<and> arrowDirection a b \<le> 180
    \<and> (\<exists>k::int. - 1 \<le> k \<and> k \<le> 1 \<and> arrowDirection a b = a - b + 360 * of_int k)
    \<and> (\<forall>k::int. \<bar>arrowDirection a b\<bar> \<le> \<bar>a - b + 360 * of_int k\<bar>)
    \<and> (arrowDirection a b = - 180 \<longleftrightarrow> a - b = - 180)
    \<and> arrowDirection 350 10 = - 20"
proof -
  let ?d = "arrowDirection a b"
  from assms have range: "- 360 < a - b" "a - b < 360" by linarith+
  obtain j :: int where j: "- 1 \<le> j" "j \<le> 1" "?d = a - b + 360 * of_int j"
    and bounds: "- 180 \<le> ?d" "?d \<le> 180"
    and low: "?d = - 180 \<longleftrightarrow> a - b = - 180"
  proof -
    from arrowDirection_cases [OF assms] consider
      "180 < a - b" "?d = a - b - 360" | "a - b < - 180" "?d = a - b + 360"
      | "- 180 \<le> a - b" "a - b \<le> 180" "?d = a - b" by blast
    then show thesis
    proof cases
      case 1
      with range show thesis by (intro that [of "- 1"]) simp_all
    next
      case 2
      with range show thesis by (intro that [of 1]) simp_all
    next
      case 3
      then show thesis by (intro that [of 0]) simp_all
    qed
  qed
  have minimal: "\<bar>?d\<bar> \<le> \<bar>a - b + 360 * of_int k\<bar>" for k :: int
  proof -
    have "a - b + 360 * of_int k = ?d + 360 * of_int (k - j)"
      using j(3) by (simp add: algebra_simps)
    with abs_shift_360 [OF bounds, of "k - j"] show ?thesis by simp
  qed
  have example: "arrowDirection 350 10 = - 20"
    by (simp add: arrowDirection_def Let_def)
  from j bounds low minimal example show ?thesis by blast
qed

theorem arrowDirection_shortest_witness:
  "(0::real) \<le> 350 \<and> (350::real) < 360 \<and> (0::real) \<le> 10 \<and> (10::real) < 360
    \<and> arrowDirection 350 10 = - 20
    \<and> \<bar>arrowDirection 350 10\<bar> \<le> \<bar>(350::real) - 10 + 360 * of_int 0\<bar>"
  using arrowDirection_shortest [of 350 10] by simp

text \<open>
  C2 (as stated) fails at the lower end of the interval: for bearing 0 and heading 180
  the rotation is -180, which is outside the half-open interval \<open>(-180, 180]\<close>.
\<close>

theorem arrowDirection_counterexample:
  "arrowDirection 0 180 = - 180 \<and> \<not> - 180 < arrowDirection 0 180"
  by (simp add: arrowDirection_def Let_def)

section \<open>Bearing and distance\<close>

lemma calculateNavigationData_eq:
  "calculateNavigationData f t =
     \<lparr>calculatedDistance =
        (case Math_sqrt (haversine_a f t) of
           None \<Rightarrow> None
         | Some p \<Rightarrow>
             (case Math_sqrt (1 - haversine_a f t) of
                None \<Rightarrow> None
              | Some q \<Rightarrow> Some (6371000 * (2 * Math_atan2 p q)))),
      calculatedBearing =
        js_rem (Math_atan2 (bearing_y f t) (bearing_x f t) * 180 / pi + 360) 360\<rparr>"
  by (simp add: calculateNavigationData_def Let_def haversine_a_def bearing_y_def
      bearing_x_def split: option.splits)


lemma haversine_a_sym: "haversine_a f t = haversine_a t f"
proof -
  have "(latitude t - latitude f) * pi / 180 / 2 = - ((latitude f - latitude t) * pi / 180 / 2)"
    and "(longitude t - longitude f) * pi / 180 / 2 = - ((longitude f - longitude t) * pi / 180 / 2)"
    by (simp_all add: field_simps)
  then show ?thesis
    unfolding haversine_a_def by (simp only: sin_minus) (simp add: mult.commute)
qed





lemma sin_pi4_sq: "sin (pi / 4) * sin (pi / 4) = 1 / 2"
  by (simp add: sin_45)

lemma quarter_east:
  "calculateNavigationData \<lparr>latitude = 0, longitude = 0\<rparr> \<lparr>latitude = 0, longitude = 90\<rparr>
     = \<lparr>calculatedDistance = Some (3185500 * pi), calculatedBearing = 90\<rparr>"
proof -
  have e: "(90::real) * pi / 180 / 2 = pi / 4" by simp
  have a: "haversine_a \<lparr>latitude = 0, longitude = 0\<rparr> \<lparr>latitude = 0, longitude = 90\<rparr> = 1 / 2"
    using sin_pi4_sq by (simp add: haversine_a_def e)
  have y: "bearing_y \<lparr>latitude = 0, longitude = 0\<rparr> \<lparr>latitude = 0, longitude = 90\<rparr> = 1"
    by (simp add: bearing_y_def)
  have x: "bearing_x \<lparr>latitude = 0, longitude = 0\<rparr> \<lparr>latitude = 0, longitude = 90\<rparr> = 0"
    by (simp add: bearing_x_def)
  have s: "Math_atan2 (sqrt (1 / 2)) (sqrt (1 / 2)) = pi / 4"
    by (simp add: Math_atan2_def arctan_one)
  have t: "Math_atan2 1 0 * 180 / pi + 360 = 450" by (simp add: Math_atan2_def)
  have b: "js_rem 450 360 = 90" by (simp add: js_rem_def)
  show ?thesis
    unfolding calculateNavigationData_eq a y x t b
    using s by (simp add: Math_sqrt_def)
qed



text \<open>
  C7. For every valid position \<open>A\<close> the computation from \<open>A\<close> to \<open>A\<close> returns the
  distance 0 and the bearing 0; no error arises.
\<close>

theorem calculateNavigationData_same_point:
  assumes "validGeoPoint A"
  shows "calculateNavigationData A A = \<lparr>calculatedDistance = Some 0, calculatedBearing = 0\<rparr>"
  by (simp add: calculateNavigationData_def Let_def Math_sqrt_def Math_atan2_def js_rem_def)

theorem calculateNavigationData_same_point_witness:
  "validGeoPoint targetLocation
    \<and> calculateNavigationData targetLocation targetLocation
        = \<lparr>calculatedDistance = Some 0, calculatedBearing = 0\<rparr>"
proof -
  have v: "validGeoPoint targetLocation"
    by (simp add: validGeoPoint_def targetLocation_def)
  from calculateNavigationData_same_point [OF v] v show ?thesis by simp
qed

text \<open>
  C8. The distance is symmetric: for all valid positions \<open>A\<close> and \<open>B\<close> the distance
  from \<open>A\<close> to \<open>B\<close> is the distance from \<open>B\<close> to \<open>A\<close>.
\<close>

theorem distance_symmetric:
  assumes "validGeoPoint A" and "validGeoPoint B"
  shows "calculatedDistance (calculateNavigationData A B)
    = calculatedDistance (calculateNavigationData B A)"
  unfolding calculateNavigationData_eq haversine_a_sym [of A B] by simp

theorem distance_symmetric_witness:
  "validGeoPoint \<lparr>latitude = 0, longitude = 0\<rparr> \<and> validGeoPoint \<lparr>latitude = 0, longitude = 90\<rparr>
    \<and> calculatedDistance
          (calculateNavigationData \<lparr>latitude = 0, longitude = 90\<rparr> \<lparr>latitude = 0, longitude = 0\<rparr>)
        = Some (3185500 * pi)"
proof -
  have v: "validGeoPoint \<lparr>latitude = 0, longitude = 0\<rparr>"
    "validGeoPoint \<lparr>latitude = 0, longitude = 90\<rparr>"
    by (simp_all add: validGeoPoint_def)
  from distance_symmetric [OF v] v show ?thesis
    by (simp add: quarter_east)
qed

lemma calculateNavigationData_distance:
  "calculatedDistance (calculateNavigationData f t) = haversineDistance (haversine_a f t)"
  by (simp add: calculateNavigationData_eq haversineDistance_def)





end
